theory Spec2Isabelle
  imports Main
begin

section \<open>Shared types (src/types/index.ts)\<close>

text \<open>
  The interfaces of the launcher become records, the enum \<open>LauncherStatus\<close> a datatype.
  The numeric fields (\<open>fileSize\<close>, the four fields of \<open>DownloadProgress\<close>) are only
  ever copied or set to the literal 0 by the store, never computed with, so they are
  modelled as integers.
\<close>

record AuthResponse =
  message :: string
  playerId :: string
  username :: string
  token :: string
  selectedSkinName :: "string option"

record GameVersion =
  version :: string
  releaseDate :: string
  downloadUrl :: string
  fileSize :: int
  checksum :: string

record DownloadProgress =
  downloadedBytes :: int
  totalBytes :: int
  progressPercent :: int
  speedMbps :: int

record LauncherSettings =
  serverUrl :: string
  installPath :: string
  autoUpdate :: bool
  rememberMe :: bool
  language :: string

datatype LauncherStatus =
  IDLE | CHECKING_VERSION | DOWNLOADING | INSTALLING | READY | UPDATING | PLAYING | ERROR

section \<open>JavaScript errors and HTTP\<close>

text \<open>
  A thrown JavaScript error object, with its \<open>name\<close> and \<open>message\<close>. \<open>Error msg\<close> is
  \<^verbatim>\<open>new Error(msg)\<close>; \<open>toString\<close> is \<^verbatim>\<open>Error.prototype.toString\<close>, which is what a
  template literal \<^verbatim>\<open>${error}\<close> and \<^verbatim>\<open>error.toString()\<close> produce.
\<close>

datatype js_error = JsError (err_name: string) (err_message: string)

definition Error :: "string \<Rightarrow> js_error" where
  "Error msg = JsError ''Error'' msg"

fun toString :: "js_error \<Rightarrow> string" where
  "toString (JsError n m) = (if n = [] then m else if m = [] then n else n @ '': '' @ m)"

text \<open>Decimal rendering of a status code, as \<^verbatim>\<open>${response.status}\<close> gives it.\<close>

definition digit_char :: "nat \<Rightarrow> char" where
  "digit_char d = char_of (48 + d)"

fun string_of_nat :: "nat \<Rightarrow> string" where
  "string_of_nat n =
     (if n < 10 then [digit_char n] else string_of_nat (n div 10) @ [digit_char (n mod 10)])"

declare string_of_nat.simps [simp del]

datatype http_method = GET | POST

text \<open>The request bodies the services build with \<^verbatim>\<open>JSON.stringify\<close>, field by field.\<close>

datatype req_body =
    NoBody
  | LoginBody string string string
  | DownloadBody string string
  | LaunchBody string
  | SettingsBody LauncherSettings

record request =
  req_method :: http_method
  url :: string
  headers :: "(string \<times> string) list"
  body :: req_body

text \<open>
  What \<^verbatim>\<open>await fetch(...)\<close> gives: the promise rejects (network failure), or it resolves
  with a response that has a status code and a body; reading the body with
  \<^verbatim>\<open>response.json()\<close> either rejects (not JSON) or gives the parsed value.
  \<^verbatim>\<open>response.ok\<close> is true exactly for the status codes 200 to 299.
\<close>

datatype 'a fetch_result = Rejected js_error | Response nat "js_error + 'a"

definition ok :: "nat \<Rightarrow> bool" where
  "ok status = (200 \<le> status \<and> status \<le> 299)"

text \<open>
  The external backend at \<^verbatim>\<open>http://localhost:8000\<close>: the outcome of each call a service
  makes. It is the environment of the launcher; every theorem below holds for an
  arbitrary backend. The body of the download response is the payload the launcher
  receives.
\<close>

record backend =
  loginUser :: "AuthResponse fetch_result"
  logoutUser :: "unit fetch_result"
  gameVersionEP :: "GameVersion fetch_result"
  gameDownload :: "string fetch_result"
  gameLaunch :: "unit fetch_result"
  settingsGet :: "LauncherSettings fetch_result"
  settingsPost :: "unit fetch_result"

section \<open>The store (src/services/store.ts)\<close>

record LauncherState =
  isAuthenticated :: bool
  user :: "AuthResponse option"
  token :: "string option"
  gameVersion :: "GameVersion option"
  installedVersion :: "string option"
  launcherStatus :: LauncherStatus
  downloadProgress :: "DownloadProgress option"
  errorMessage :: "string option"
  settings :: "LauncherSettings option"

text \<open>
  Everything an action can read or change: the zustand store, the browser's
  \<open>localStorage\<close> (read by the services, written nowhere in the sources), the HTTP
  requests issued so far in order, and the lines written with \<^verbatim>\<open>console.error\<close>.
\<close>

record world =
  store :: LauncherState
  localStorage :: "string \<Rightarrow> string option"
  requests :: "request list"
  console :: "(string \<times> js_error) list"

definition initial_state :: LauncherState where
  "initial_state =
     \<lparr>isAuthenticated = False, user = None, token = None, gameVersion = None,
      installedVersion = None, launcherStatus = IDLE, downloadProgress = None,
      errorMessage = None, settings = None\<rparr>"

definition API_URL :: string where
  "API_URL = ''http://localhost:8000''"

definition send :: "request \<Rightarrow> world \<Rightarrow> world" where
  "send r w = w\<lparr>requests := requests w @ [r]\<rparr>"

text \<open>
  \<^verbatim>\<open>`Bearer ${token}`\<close> for the token a service reads with
  \<^verbatim>\<open>localStorage.getItem('token')\<close>: \<open>null\<close> prints as "null".
\<close>

definition bearer :: "string option \<Rightarrow> string" where
  "bearer t = ''Bearer '' @ (case t of None \<Rightarrow> ''null'' | Some s \<Rightarrow> s)"

text \<open>
  The two shapes the services' inner \<^verbatim>\<open>try\<close> blocks have: check \<^verbatim>\<open>response.ok\<close> and
  return \<^verbatim>\<open>response.json()\<close>, or check \<^verbatim>\<open>response.ok\<close> only. \<open>rethrow\<close> is the
  \<^verbatim>\<open>catch (error) { throw new Error(`prefix${error}`) }\<close> around them.
\<close>

definition ok_json :: "'a fetch_result \<Rightarrow> js_error + 'a" where
  "ok_json r =
     (case r of
        Rejected e \<Rightarrow> Inl e
      | Response status js \<Rightarrow>
          if \<not> ok status then Inl (Error (''HTTP error! status: '' @ string_of_nat status))
          else js)"

definition ok_only :: "'a fetch_result \<Rightarrow> js_error + unit" where
  "ok_only r =
     (case r of
        Rejected e \<Rightarrow> Inl e
      | Response status js \<Rightarrow>
          if \<not> ok status then Inl (Error (''HTTP error! status: '' @ string_of_nat status))
          else Inr ())"

definition rethrow :: "string \<Rightarrow> js_error + 'a \<Rightarrow> js_error + 'a" where
  "rethrow prefix r =
     (case r of Inl e \<Rightarrow> Inl (Error (prefix @ toString e)) | Inr v \<Rightarrow> Inr v)"

subsection \<open>AuthService (src/services/authService.ts)\<close>

definition login_request :: "string \<Rightarrow> string \<Rightarrow> request" where
  "login_request uname password =
     \<lparr>req_method = POST, url = API_URL @ ''/api/loginUser'',
      headers = [(''Content-Type'', ''application/json'')],
      body = LoginBody uname uname password\<rparr>"

definition AuthService_login ::
  "backend \<Rightarrow> string \<Rightarrow> string \<Rightarrow> world \<Rightarrow> (js_error + AuthResponse) \<times> world" where
  "AuthService_login be uname password w =
     (rethrow ''Login failed: '' (ok_json (loginUser be)),
      send (login_request uname password) w)"

definition logout_request :: "string option \<Rightarrow> request" where
  "logout_request stored_token =
     \<lparr>req_method = POST, url = API_URL @ ''/api/logoutUser'',
      headers = [(''Authorization'', bearer stored_token),
                 (''Content-Type'', ''application/json'')],
      body = NoBody\<rparr>"

text \<open>\<open>logout\<close> awaits the fetch and reads neither \<^verbatim>\<open>response.ok\<close> nor the body.\<close>

definition AuthService_logout :: "backend \<Rightarrow> world \<Rightarrow> (js_error + unit) \<times> world" where
  "AuthService_logout be w =
     (rethrow ''Logout failed: ''
        (case logoutUser be of Rejected e \<Rightarrow> Inl e | Response status js \<Rightarrow> Inr ()),
      send (logout_request (localStorage w ''token'')) w)"

subsection \<open>GameService (src/services/gameService.ts)\<close>

definition version_request :: request where
  "version_request =
     \<lparr>req_method = GET, url = API_URL @ ''/api/game/version'',
      headers = [(''Content-Type'', ''application/json'')],
      body = NoBody\<rparr>"

definition GameService_checkVersion :: "backend \<Rightarrow> world \<Rightarrow> (js_error + GameVersion) \<times> world" where
  "GameService_checkVersion be w =
     (rethrow ''Failed to check version: '' (ok_json (gameVersionEP be)),
      send version_request w)"

definition download_request :: "string \<Rightarrow> string \<Rightarrow> string option \<Rightarrow> request" where
  "download_request v path stored_token =
     \<lparr>req_method = POST, url = API_URL @ ''/api/game/download'',
      headers = [(''Authorization'', bearer stored_token),
                 (''Content-Type'', ''application/json'')],
      body = DownloadBody v path\<rparr>"

text \<open>
  \<open>downloadGame\<close> posts the version and the install path, checks \<^verbatim>\<open>response.ok\<close>, awaits
  \<^verbatim>\<open>response.json()\<close> and drops the value. The \<open>onProgress\<close> callback is a parameter it
  never calls.
\<close>

definition GameService_downloadGame ::
  "backend \<Rightarrow> string \<Rightarrow> string \<Rightarrow> (DownloadProgress \<Rightarrow> world \<Rightarrow> world) \<Rightarrow> world
     \<Rightarrow> (js_error + unit) \<times> world" where
  "GameService_downloadGame be v path onProgress w =
     (rethrow ''Failed to download game: ''
        (case ok_json (gameDownload be) of Inl e \<Rightarrow> Inl e | Inr payload \<Rightarrow> Inr ()),
      send (download_request v path (localStorage w ''token'')) w)"

definition launch_request :: "string \<Rightarrow> string \<Rightarrow> request" where
  "launch_request tok path =
     \<lparr>req_method = POST, url = API_URL @ ''/api/game/launch'',
      headers = [(''Authorization'', ''Bearer '' @ tok),
                 (''Content-Type'', ''application/json'')],
      body = LaunchBody path\<rparr>"

definition GameService_launchGame ::
  "backend \<Rightarrow> string \<Rightarrow> string \<Rightarrow> world \<Rightarrow> (js_error + unit) \<times> world" where
  "GameService_launchGame be tok path w =
     (rethrow ''Failed to launch game: '' (ok_only (gameLaunch be)),
      send (launch_request tok path) w)"

text \<open>The default path \<^verbatim>\<open>C:\RemakeSoF\Game\<close>; no backend call.\<close>

definition GameService_getInstallPath :: string where
  "GameService_getInstallPath = ''C:'' @ [CHR 0x5C] @ ''RemakeSoF'' @ [CHR 0x5C] @ ''Game''"

subsection \<open>SettingsService (src/services/settingsService.ts)\<close>

definition settings_get_request :: "string option \<Rightarrow> request" where
  "settings_get_request stored_token =
     \<lparr>req_method = GET, url = API_URL @ ''/settings'',
      headers = [(''Authorization'', bearer stored_token),
                 (''Content-Type'', ''application/json'')],
      body = NoBody\<rparr>"

definition default_settings :: LauncherSettings where
  "default_settings =
     \<lparr>serverUrl = ''http://localhost:8000'', installPath = '''', autoUpdate = True,
      rememberMe = False, language = ''en''\<rparr>"

text \<open>\<open>getSettings\<close> catches every failure and returns the defaults instead.\<close>

definition SettingsService_getSettings ::
  "backend \<Rightarrow> world \<Rightarrow> (js_error + LauncherSettings) \<times> world" where
  "SettingsService_getSettings be w =
     ((case ok_json (settingsGet be) of Inl e \<Rightarrow> Inr default_settings | Inr s \<Rightarrow> Inr s),
      send (settings_get_request (localStorage w ''token'')) w)"

definition settings_post_request :: "LauncherSettings \<Rightarrow> string option \<Rightarrow> request" where
  "settings_post_request s stored_token =
     \<lparr>req_method = POST, url = API_URL @ ''/settings'',
      headers = [(''Authorization'', bearer stored_token),
                 (''Content-Type'', ''application/json'')],
      body = SettingsBody s\<rparr>"

definition SettingsService_saveSettings ::
  "backend \<Rightarrow> LauncherSettings \<Rightarrow> world \<Rightarrow> (js_error + unit) \<times> world" where
  "SettingsService_saveSettings be s w =
     (rethrow ''Failed to save settings: '' (ok_only (settingsPost be)),
      send (settings_post_request s (localStorage w ''token'')) w)"

subsection \<open>The actions of the store\<close>

text \<open>
  Each action takes the world at its invocation to the world at the moment its promise
  settles; \<open>set({...})\<close> is a record update of the store. An action whose promise can
  reject (\<open>login\<close> rethrows) also returns the error. A \<^verbatim>\<open>try\<close>/\<^verbatim>\<open>catch\<close> is the case
  distinction on the awaited service's result.
\<close>

text \<open>
  \<open>checkGameVersion\<close> awaits \<open>GameService.getInstallPath()\<close> after the version and binds
  the result to a local that is never read. The value that call resolves to is the
  first parameter here; the source's action is the instance at the service's own path.
\<close>

definition checkGameVersion_with :: "string \<Rightarrow> backend \<Rightarrow> world \<Rightarrow> world" where
  "checkGameVersion_with path_result be w =
     (let w1 = w\<lparr>store := (store w)\<lparr>launcherStatus := CHECKING_VERSION\<rparr>\<rparr>;
          (r, w2) = GameService_checkVersion be w1
      in case r of
           Inl error \<Rightarrow>
             w2\<lparr>store := (store w2)\<lparr>errorMessage := Some ''Failed to check game version'',
                                     launcherStatus := ERROR\<rparr>\<rparr>
         | Inr v \<Rightarrow>
             (let installPath_local = path_result
              in w2\<lparr>store := (store w2)\<lparr>gameVersion := Some v,
                                         launcherStatus := READY\<rparr>\<rparr>))"

definition checkGameVersion :: "backend \<Rightarrow> world \<Rightarrow> world" where
  "checkGameVersion be w = checkGameVersion_with GameService_getInstallPath be w"

definition login :: "backend \<Rightarrow> string \<Rightarrow> string \<Rightarrow> world \<Rightarrow> (js_error + unit) \<times> world" where
  "login be uname password w =
     (let w1 = w\<lparr>store := (store w)\<lparr>launcherStatus := IDLE, errorMessage := None\<rparr>\<rparr>;
          (r, w2) = AuthService_login be uname password w1
      in case r of
           Inl error \<Rightarrow>
             (Inl error,
              w2\<lparr>store := (store w2)\<lparr>errorMessage := Some (toString error),
                                      launcherStatus := ERROR\<rparr>\<rparr>)
         | Inr response \<Rightarrow>
             (let w3 = w2\<lparr>store := (store w2)\<lparr>isAuthenticated := True,
                                               user := Some response,
                                               token := Some (AuthResponse.token response)\<rparr>\<rparr>
              in (Inr (), checkGameVersion be w3)))"

definition logout :: "backend \<Rightarrow> world \<Rightarrow> world" where
  "logout be w =
     (let (r, w1) = AuthService_logout be w
      in case r of
           Inl error \<Rightarrow> w1\<lparr>console := console w1 @ [(''Logout failed:'', error)]\<rparr>
         | Inr u \<Rightarrow>
             w1\<lparr>store := (store w1)\<lparr>isAuthenticated := False, user := None, token := None,
                                     launcherStatus := IDLE\<rparr>\<rparr>)"

text \<open>The progress callback \<open>downloadGame\<close> hands to the service.\<close>

definition onProgress_cb :: "DownloadProgress \<Rightarrow> world \<Rightarrow> world" where
  "onProgress_cb progress w = w\<lparr>store := (store w)\<lparr>downloadProgress := Some progress\<rparr>\<rparr>"

definition downloadGame :: "backend \<Rightarrow> world \<Rightarrow> world" where
  "downloadGame be w =
     (case (gameVersion (store w), settings (store w)) of
        (Some gv, Some st) \<Rightarrow>
          (let w1 = w\<lparr>store := (store w)
                      \<lparr>launcherStatus := DOWNLOADING,
                       downloadProgress :=
                         Some \<lparr>downloadedBytes = 0, totalBytes = fileSize gv,
                               progressPercent = 0, speedMbps = 0\<rparr>\<rparr>\<rparr>;
               (r, w2) = GameService_downloadGame be (version gv) (installPath st) onProgress_cb w1
           in case r of
                Inl error \<Rightarrow>
                  w2\<lparr>store := (store w2)\<lparr>errorMessage := Some (''Download failed: '' @ toString error),
                                          launcherStatus := ERROR\<rparr>\<rparr>
              | Inr u \<Rightarrow>
                  w2\<lparr>store := (store w2)\<lparr>launcherStatus := READY,
                                          installedVersion := Some (version gv)\<rparr>\<rparr>)
      | _ \<Rightarrow> w\<lparr>store := (store w)\<lparr>errorMessage := Some ''Version or settings not available''\<rparr>\<rparr>)"

text \<open>
  \<^verbatim>\<open>!token\<close> on a \<^verbatim>\<open>string | null\<close> is true for \<open>null\<close> and for the empty string;
  \<^verbatim>\<open>!settings\<close> on an object or \<open>null\<close> is true for \<open>null\<close> only.
\<close>

definition launchGame :: "backend \<Rightarrow> world \<Rightarrow> world" where
  "launchGame be w =
     (case (token (store w), settings (store w)) of
        (Some tok, Some st) \<Rightarrow>
          if tok = []
          then w\<lparr>store := (store w)\<lparr>errorMessage := Some ''Not authenticated or settings missing''\<rparr>\<rparr>
          else
            (let w1 = w\<lparr>store := (store w)\<lparr>launcherStatus := PLAYING\<rparr>\<rparr>;
                 (r, w2) = GameService_launchGame be tok (installPath st) w1
             in case r of
                  Inl error \<Rightarrow>
                    w2\<lparr>store := (store w2)
                          \<lparr>errorMessage := Some (''Failed to launch game: '' @ toString error),
                           launcherStatus := ERROR\<rparr>\<rparr>
                | Inr u \<Rightarrow> w2\<lparr>store := (store w2)\<lparr>launcherStatus := READY\<rparr>\<rparr>)
      | _ \<Rightarrow> w\<lparr>store := (store w)\<lparr>errorMessage := Some ''Not authenticated or settings missing''\<rparr>\<rparr>)"

definition updateSettings :: "backend \<Rightarrow> LauncherSettings \<Rightarrow> world \<Rightarrow> world" where
  "updateSettings be s w =
     (let (r, w1) = SettingsService_saveSettings be s w
      in case r of
           Inl error \<Rightarrow> w1\<lparr>console := console w1 @ [(''Failed to save settings:'', error)]\<rparr>
         | Inr u \<Rightarrow> w1\<lparr>store := (store w1)\<lparr>settings := Some s\<rparr>\<rparr>)"

definition initialize :: "backend \<Rightarrow> world \<Rightarrow> world" where
  "initialize be w =
     (let (r, w1) = SettingsService_getSettings be w
      in case r of
           Inl error \<Rightarrow> w1\<lparr>console := console w1 @ [(''Failed to initialize launcher:'', error)]\<rparr>
         | Inr s \<Rightarrow> w1\<lparr>store := (store w1)\<lparr>settings := Some s\<rparr>\<rparr>)"

section \<open>The launcher screen (src/components/LauncherScreen.tsx)\<close>

text \<open>
  The play button: its click handler, and the flag that disables it. A click on a
  disabled button reaches no handler.
\<close>

definition handlePlayClick :: "backend \<Rightarrow> world \<Rightarrow> world" where
  "handlePlayClick be w =
     (if launcherStatus (store w) = READY then launchGame be w
      else if launcherStatus (store w) = IDLE then downloadGame be w
      else w)"

definition isButtonDisabled :: "world \<Rightarrow> bool" where
  "isButtonDisabled w =
     (launcherStatus (store w) = DOWNLOADING \<or>
      launcherStatus (store w) = INSTALLING \<or>
      launcherStatus (store w) = CHECKING_VERSION \<or>
      launcherStatus (store w) = PLAYING)"

definition clickPlayButton :: "backend \<Rightarrow> world \<Rightarrow> world" where
  "clickPlayButton be w = (if isButtonDisabled w then w else handlePlayClick be w)"

section \<open>Outcomes and sample inputs\<close>

text \<open>
  A call is delivered when the fetch resolves with a 2xx status and a body that parses
  as JSON: the case in which the services built on \<open>ok_json\<close> resolve. It is accepted
  when the fetch resolves with a 2xx status, whatever the body: the case in which the
  services built on \<open>ok_only\<close> resolve.
\<close>

definition delivered :: "'a fetch_result \<Rightarrow> bool" where
  "delivered r =
     (case r of
        Rejected e \<Rightarrow> False
      | Response status js \<Rightarrow> ok status \<and> (case js of Inl e \<Rightarrow> False | Inr v \<Rightarrow> True))"

definition accepted :: "'a fetch_result \<Rightarrow> bool" where
  "accepted r = (case r of Rejected e \<Rightarrow> False | Response status js \<Rightarrow> ok status)"

text \<open>The value a delivered call carries; \<open>None\<close> when the call is not delivered.\<close>

definition fetched :: "'a fetch_result \<Rightarrow> 'a option" where
  "fetched r =
     (case r of
        Rejected e \<Rightarrow> None
      | Response status js \<Rightarrow>
          (case js of Inl e \<Rightarrow> None | Inr v \<Rightarrow> if ok status then Some v else None))"

text \<open>
  Concrete inputs for the examples: the store as created, a backend that answers every
  call with 200, one that is unreachable, one that answers the login with 401, one
  whose version endpoint alone is unreachable, and a logged-in store in a given status whose version descriptor carries a given checksum.
\<close>

definition empty_world :: world where
  "empty_world =
     \<lparr>store = initial_state, localStorage = (\<lambda>k. None), requests = [], console = []\<rparr>"

definition offline :: js_error where
  "offline = JsError ''TypeError'' ''Failed to fetch''"

definition sample_user :: AuthResponse where
  "sample_user =
     \<lparr>message = ''Login successful'', playerId = ''p1'', username = ''admin'',
      token = ''jwt'', selectedSkinName = None\<rparr>"

definition sample_version :: GameVersion where
  "sample_version =
     \<lparr>version = ''1.2.3'', releaseDate = ''2026-02-01'',
      downloadUrl = ''/api/game/download'', fileSize = 1000, checksum = ''abc''\<rparr>"

definition backend_up :: backend where
  "backend_up =
     \<lparr>loginUser = Response 200 (Inr sample_user),
      logoutUser = Response 200 (Inr ()),
      gameVersionEP = Response 200 (Inr sample_version),
      gameDownload = Response 200 (Inr ''payload''),
      gameLaunch = Response 200 (Inr ()),
      settingsGet = Response 200 (Inr default_settings),
      settingsPost = Response 200 (Inr ())\<rparr>"

definition backend_down :: backend where
  "backend_down =
     \<lparr>loginUser = Rejected offline, logoutUser = Rejected offline,
      gameVersionEP = Rejected offline, gameDownload = Rejected offline,
      gameLaunch = Rejected offline, settingsGet = Rejected offline,
      settingsPost = Rejected offline\<rparr>"

definition backend_401 :: backend where
  "backend_401 = backend_up\<lparr>loginUser := Response 401 (Inl (JsError ''SyntaxError'' ''Unexpected end of JSON input''))\<rparr>"

definition backend_no_version :: backend where
  "backend_no_version = backend_up\<lparr>gameVersionEP := Rejected offline\<rparr>"

definition world_with :: "LauncherStatus \<Rightarrow> string \<Rightarrow> world" where
  "world_with s c =
     empty_world\<lparr>store := initial_state
        \<lparr>isAuthenticated := True, user := Some sample_user, token := Some ''jwt'',
         gameVersion := Some (sample_version\<lparr>checksum := c\<rparr>),
         launcherStatus := s,
         downloadProgress := Some \<lparr>downloadedBytes = 500, totalBytes = 1000,
                                   progressPercent = 50, speedMbps = 1\<rparr>,
         settings := Some default_settings\<rparr>\<rparr>"

section \<open>Auxiliary facts\<close>

lemmas sample_defs =
  empty_world_def initial_state_def offline_def sample_user_def sample_version_def
  backend_up_def backend_down_def backend_401_def world_with_def default_settings_def

lemma delivered_ok_json: "delivered r \<longleftrightarrow> (\<exists>v. ok_json r = Inr v)"
  by (simp add: delivered_def ok_json_def split: fetch_result.splits sum.splits)

lemma not_delivered_ok_json: "\<not> delivered r \<longleftrightarrow> (\<exists>e. ok_json r = Inl e)"
  by (simp add: delivered_def ok_json_def split: fetch_result.splits sum.splits)

lemma fetched_ok_json: "ok_json r = Inr v \<Longrightarrow> fetched r = Some v"
  by (simp add: fetched_def ok_json_def split: fetch_result.splits sum.splits if_splits)

lemma accepted_ok_only: "accepted r \<longleftrightarrow> ok_only r = Inr ()"
  by (simp add: accepted_def ok_only_def split: fetch_result.splits)

lemma toString_Error: "m \<noteq> [] \<Longrightarrow> toString (Error m) = ''Error: '' @ m"
  by (simp add: Error_def)

lemma string_of_nat_401: "string_of_nat 401 = ''401''"
  by code_simp

text \<open>\<open>AuthService.login\<close> resolves exactly when the login call is delivered.\<close>

lemma AuthService_login_resolves_iff:
  "(\<exists>r. fst (AuthService_login be u p w) = Inr r) \<longleftrightarrow> delivered (loginUser be)"
  by (cases "ok_json (loginUser be)")
     (simp_all add: AuthService_login_def rethrow_def delivered_ok_json)

lemma AuthService_login_401:
  "fst (AuthService_login backend_401 u p w) =
     Inl (Error ''Login failed: Error: HTTP error! status: 401'')"
  by (simp add: AuthService_login_def rethrow_def ok_json_def ok_def Error_def
      string_of_nat_401 backend_401_def)

subsection \<open>Each action, by the outcome of the service it awaits\<close>

lemma checkGameVersion_failed:
  assumes "ok_json (gameVersionEP be) = Inl e"
  shows "checkGameVersion be w =
    w\<lparr>store := (store w)\<lparr>launcherStatus := ERROR,
                            errorMessage := Some ''Failed to check game version''\<rparr>,
       requests := requests w @ [version_request]\<rparr>"
  using assms
  by (simp add: checkGameVersion_def checkGameVersion_with_def GameService_checkVersion_def
      send_def rethrow_def)

lemma checkGameVersion_succeeded:
  assumes "ok_json (gameVersionEP be) = Inr v"
  shows "checkGameVersion be w =
    w\<lparr>store := (store w)\<lparr>launcherStatus := READY, gameVersion := Some v\<rparr>,
       requests := requests w @ [version_request]\<rparr>"
  using assms
  by (simp add: checkGameVersion_def checkGameVersion_with_def GameService_checkVersion_def
      send_def rethrow_def)

lemma requests_checkGameVersion:
  "requests (checkGameVersion be w) = requests w @ [version_request]"
  by (cases "ok_json (gameVersionEP be)")
     (simp_all add: checkGameVersion_failed checkGameVersion_succeeded)

lemma session_checkGameVersion:
  "isAuthenticated (store (checkGameVersion be w)) = isAuthenticated (store w) \<and>
   user (store (checkGameVersion be w)) = user (store w) \<and>
   token (store (checkGameVersion be w)) = token (store w)"
  by (cases "ok_json (gameVersionEP be)")
     (simp_all add: checkGameVersion_failed checkGameVersion_succeeded)

lemma login_failed:
  assumes "fst (AuthService_login be u p w0) = Inl e"
  shows "login be u p w =
    (Inl e,
     w\<lparr>store := (store w)\<lparr>launcherStatus := ERROR, errorMessage := Some (toString e)\<rparr>,
        requests := requests w @ [login_request u p]\<rparr>)"
  using assms by (simp add: login_def AuthService_login_def send_def)

lemma login_succeeded:
  assumes "fst (AuthService_login be u p w0) = Inr r"
  shows "login be u p w =
    (Inr (),
     checkGameVersion be
       (w\<lparr>requests := requests w @ [login_request u p],
          store := (store w)\<lparr>launcherStatus := IDLE, errorMessage := None,
                               isAuthenticated := True, user := Some r,
                               token := Some (AuthResponse.token r)\<rparr>\<rparr>))"
  using assms by (simp add: login_def AuthService_login_def send_def)

lemma logout_failed:
  assumes "logoutUser be = Rejected e"
  shows "logout be w =
    w\<lparr>requests := requests w @ [logout_request (localStorage w ''token'')],
       console := console w @ [(''Logout failed:'', Error (''Logout failed: '' @ toString e))]\<rparr>"
  using assms by (simp add: logout_def AuthService_logout_def send_def rethrow_def)

lemma logout_succeeded:
  assumes "logoutUser be = Response status js"
  shows "logout be w =
    w\<lparr>store := (store w)\<lparr>isAuthenticated := False, user := None, token := None,
                            launcherStatus := IDLE\<rparr>,
       requests := requests w @ [logout_request (localStorage w ''token'')]\<rparr>"
  using assms by (simp add: logout_def AuthService_logout_def send_def rethrow_def)

lemma downloadGame_failed:
  assumes "gameVersion (store w) = Some gv" "settings (store w) = Some st"
    and "ok_json (gameDownload be) = Inl e"
  shows "downloadGame be w =
    w\<lparr>store := (store w)
         \<lparr>launcherStatus := ERROR,
          downloadProgress := Some \<lparr>downloadedBytes = 0, totalBytes = fileSize gv,
                                    progressPercent = 0, speedMbps = 0\<rparr>,
          errorMessage := Some (''Download failed: '' @
             toString (Error (''Failed to download game: '' @ toString e)))\<rparr>,
       requests := requests w @
          [download_request (version gv) (installPath st) (localStorage w ''token'')]\<rparr>"
  using assms by (simp add: downloadGame_def GameService_downloadGame_def send_def rethrow_def)

lemma downloadGame_succeeded:
  assumes "gameVersion (store w) = Some gv" "settings (store w) = Some st"
    and "ok_json (gameDownload be) = Inr payload"
  shows "downloadGame be w =
    w\<lparr>store := (store w)
         \<lparr>launcherStatus := READY,
          downloadProgress := Some \<lparr>downloadedBytes = 0, totalBytes = fileSize gv,
                                    progressPercent = 0, speedMbps = 0\<rparr>,
          installedVersion := Some (version gv)\<rparr>,
       requests := requests w @
          [download_request (version gv) (installPath st) (localStorage w ''token'')]\<rparr>"
  using assms by (simp add: downloadGame_def GameService_downloadGame_def send_def rethrow_def)

lemma launchGame_failed:
  assumes "token (store w) = Some tok" "tok \<noteq> []" "settings (store w) = Some st"
    and "fst (GameService_launchGame be tok (installPath st) w0) = Inl e"
  shows "launchGame be w =
    w\<lparr>store := (store w)
         \<lparr>launcherStatus := ERROR,
          errorMessage := Some (''Failed to launch game: '' @ toString e)\<rparr>,
       requests := requests w @ [launch_request tok (installPath st)]\<rparr>"
  using assms by (simp add: launchGame_def GameService_launchGame_def send_def)

lemma launchGame_succeeded:
  assumes "token (store w) = Some tok" "tok \<noteq> []" "settings (store w) = Some st"
    and "fst (GameService_launchGame be tok (installPath st) w0) = Inr u"
  shows "launchGame be w =
    w\<lparr>store := (store w)\<lparr>launcherStatus := READY\<rparr>,
       requests := requests w @ [launch_request tok (installPath st)]\<rparr>"
  using assms by (simp add: launchGame_def GameService_launchGame_def send_def)

lemma launchGame_guarded:
  assumes "token (store w) = None \<or> token (store w) = Some [] \<or> settings (store w) = None"
  shows "launchGame be w =
    w\<lparr>store := (store w)\<lparr>errorMessage := Some ''Not authenticated or settings missing''\<rparr>\<rparr>"
  using assms by (auto simp: launchGame_def split: option.splits)

lemma updateSettings_failed:
  assumes "fst (SettingsService_saveSettings be s w0) = Inl e"
  shows "updateSettings be s w =
    w\<lparr>requests := requests w @ [settings_post_request s (localStorage w ''token'')],
       console := console w @ [(''Failed to save settings:'', e)]\<rparr>"
  using assms by (simp add: updateSettings_def SettingsService_saveSettings_def send_def)

lemma getSettings_never_fails:
  "\<exists>s. fst (SettingsService_getSettings be w) = Inr s"
  by (simp add: SettingsService_getSettings_def split: sum.splits)

lemma initialize_sets_settings:
  "initialize be w =
     w\<lparr>requests := requests w @ [settings_get_request (localStorage w ''token'')],
        store := (store w)
          \<lparr>settings := Some (case ok_json (settingsGet be) of
                               Inl e \<Rightarrow> default_settings | Inr s \<Rightarrow> s)\<rparr>\<rparr>"
  by (cases "ok_json (settingsGet be)")
     (simp_all add: initialize_def SettingsService_getSettings_def send_def)

section \<open>The claims\<close>

subsection \<open>C1: download and install\<close>

text \<open>
  C1, as amended. When the version descriptor and the settings are present,
  \<open>downloadGame\<close> sets \<open>installedVersion\<close> to the descriptor's version if and only if
  the download call is delivered (the fetch resolves with a 2xx status and a JSON
  body); otherwise \<open>installedVersion\<close> keeps its value, the status is \<open>ERROR\<close> and the
  message starts with "Download failed: ". No digest is computed: the descriptor's
  \<open>checksum\<close> has no influence on the outcome (the last conjunct: running with any
  other checksum gives the same world, up to the stored descriptor itself).
\<close>

theorem downloadGame_installs_iff_delivered:
  assumes gv: "gameVersion (store w) = Some gv" and st: "settings (store w) = Some st"
  shows "installedVersion (store (downloadGame be w)) =
           (if delivered (gameDownload be) then Some (version gv)
            else installedVersion (store w)) \<and>
         launcherStatus (store (downloadGame be w)) =
           (if delivered (gameDownload be) then READY else ERROR) \<and>
         (if delivered (gameDownload be)
          then errorMessage (store (downloadGame be w)) = errorMessage (store w)
          else \<exists>m. errorMessage (store (downloadGame be w)) =
                 Some (''Download failed: Error: Failed to download game: '' @ m)) \<and>
         downloadGame be (w\<lparr>store := (store w)\<lparr>gameVersion := Some (gv\<lparr>checksum := c\<rparr>)\<rparr>\<rparr>) =
           (downloadGame be w)\<lparr>store := (store (downloadGame be w))
              \<lparr>gameVersion := Some (gv\<lparr>checksum := c\<rparr>)\<rparr>\<rparr>"
proof (cases "ok_json (gameDownload be)")
  case (Inl e)
  then have nd: "\<not> delivered (gameDownload be)"
    by (simp add: not_delivered_ok_json)
  let ?w' = "w\<lparr>store := (store w)\<lparr>gameVersion := Some (gv\<lparr>checksum := c\<rparr>)\<rparr>\<rparr>"
  have same: "downloadGame be ?w' =
      (downloadGame be w)\<lparr>store := (store (downloadGame be w))
         \<lparr>gameVersion := Some (gv\<lparr>checksum := c\<rparr>)\<rparr>\<rparr>"
    using downloadGame_failed[OF gv st Inl]
      downloadGame_failed[of ?w' "gv\<lparr>checksum := c\<rparr>" st be e] st Inl
    by simp
  show ?thesis using nd same downloadGame_failed[OF gv st Inl]
    by (simp add: toString_Error)
next
  case (Inr payload)
  then have d: "delivered (gameDownload be)"
    by (simp add: delivered_ok_json)
  let ?w' = "w\<lparr>store := (store w)\<lparr>gameVersion := Some (gv\<lparr>checksum := c\<rparr>)\<rparr>\<rparr>"
  have same: "downloadGame be ?w' =
      (downloadGame be w)\<lparr>store := (store (downloadGame be w))
         \<lparr>gameVersion := Some (gv\<lparr>checksum := c\<rparr>)\<rparr>\<rparr>"
    using downloadGame_succeeded[OF gv st Inr]
      downloadGame_succeeded[of ?w' "gv\<lparr>checksum := c\<rparr>" st be payload] st Inr
    by simp
  show ?thesis using d same downloadGame_succeeded[OF gv st Inr]
    by simp
qed

text \<open>
  The theorem at a backend that delivers the payload and at one that is unreachable,
  for a descriptor with checksum "xyz".
\<close>

theorem downloadGame_installs_iff_delivered_witness:
  "installedVersion (store (downloadGame backend_up (world_with IDLE ''xyz''))) = Some ''1.2.3'' \<and>
   launcherStatus (store (downloadGame backend_up (world_with IDLE ''xyz''))) = READY \<and>
   installedVersion (store (downloadGame backend_down (world_with IDLE ''xyz''))) = None \<and>
   launcherStatus (store (downloadGame backend_down (world_with IDLE ''xyz''))) = ERROR"
  using downloadGame_installs_iff_delivered
      [of "world_with IDLE ''xyz''" "sample_version\<lparr>checksum := ''xyz''\<rparr>"
          default_settings backend_up "''abc''"]
    downloadGame_installs_iff_delivered
      [of "world_with IDLE ''xyz''" "sample_version\<lparr>checksum := ''xyz''\<rparr>"
          default_settings backend_down "''abc''"]
  by (simp add: sample_defs delivered_def ok_def)

text \<open>
  C1 as stated fails. The backend delivers the one payload "payload"; the action is
  run against a descriptor whose checksum is "abc" and against one whose checksum is
  "xyz". Whatever the digest of the payload is, it differs from at least one of the
  two; yet both runs record version 1.2.3 as installed and end in \<open>READY\<close>, neither
  with a checksum-mismatch error.
\<close>

theorem downloadGame_never_compares_checksum:
  "installedVersion (store (world_with IDLE ''abc'')) = None \<and>
   installedVersion (store (world_with IDLE ''xyz'')) = None \<and>
   gameDownload backend_up = Response 200 (Inr ''payload'') \<and>
   installedVersion (store (downloadGame backend_up (world_with IDLE ''abc''))) = Some ''1.2.3'' \<and>
   installedVersion (store (downloadGame backend_up (world_with IDLE ''xyz''))) = Some ''1.2.3'' \<and>
   launcherStatus (store (downloadGame backend_up (world_with IDLE ''abc''))) = READY \<and>
   launcherStatus (store (downloadGame backend_up (world_with IDLE ''xyz''))) = READY \<and>
   errorMessage (store (downloadGame backend_up (world_with IDLE ''abc''))) = None \<and>
   errorMessage (store (downloadGame backend_up (world_with IDLE ''xyz''))) = None"
  by (simp add: downloadGame_def GameService_downloadGame_def send_def rethrow_def
      ok_json_def ok_def sample_defs)

subsection \<open>C2: the version check\<close>

text \<open>
  C2, as amended. After a version check whose call resolves with a 2xx status and a
  descriptor \<open>v\<close>, the status is \<open>READY\<close> and \<open>gameVersion\<close> is \<open>v\<close>, from every world:
  \<open>installedVersion\<close> is neither read nor changed. The only request the check issues
  is the GET of the version, so the download is not invoked.
\<close>

theorem checkGameVersion_resolved_is_ready:
  assumes "gameVersionEP be = Response status (Inr v)" "ok status"
  shows "launcherStatus (store (checkGameVersion be w)) = READY \<and>
         gameVersion (store (checkGameVersion be w)) = Some v \<and>
         installedVersion (store (checkGameVersion be w)) = installedVersion (store w) \<and>
         requests (checkGameVersion be w) = requests w @ [version_request]"
proof -
  have "ok_json (gameVersionEP be) = Inr v"
    using assms by (simp add: ok_json_def)
  then show ?thesis
    by (simp add: checkGameVersion_succeeded)
qed

text \<open>The theorem at the store as created, where nothing is installed.\<close>

theorem checkGameVersion_resolved_is_ready_witness:
  "launcherStatus (store (checkGameVersion backend_up empty_world)) = READY \<and>
   gameVersion (store (checkGameVersion backend_up empty_world)) = Some sample_version \<and>
   installedVersion (store (checkGameVersion backend_up empty_world)) = None \<and>
   requests (checkGameVersion backend_up empty_world) = [version_request]"
  using checkGameVersion_resolved_is_ready[of backend_up 200 sample_version empty_world]
  by (simp add: backend_up_def ok_def empty_world_def initial_state_def)

text \<open>
  C2 as stated fails: with nothing installed, a successful check of version 1.2.3
  ends in \<open>READY\<close>, although the installed version does not equal the fetched one.
\<close>

theorem checkGameVersion_ready_with_nothing_installed:
  "\<not> (launcherStatus (store (checkGameVersion backend_up empty_world)) = READY
        \<longleftrightarrow> installedVersion (store empty_world) = Some (version sample_version))"
  by (simp add: checkGameVersion_def checkGameVersion_with_def GameService_checkVersion_def
      send_def rethrow_def ok_json_def ok_def sample_defs)

subsection \<open>C3: a download requested while one is in flight\<close>

text \<open>
  C3, as amended. While the status is \<open>DOWNLOADING\<close>, the play button starts nothing:
  its click handler calls \<open>downloadGame\<close> only in \<open>IDLE\<close>, and the button is disabled,
  so a click leaves the world as it is. The action \<open>downloadGame\<close> itself has no such
  guard: invoked with the descriptor and the settings present it issues a new download
  request and resets \<open>downloadProgress\<close> to zero bytes; invoked without one of them it
  issues nothing and leaves progress and status as they are.
\<close>

theorem downloadGame_while_downloading:
  assumes "launcherStatus (store w) = DOWNLOADING"
  shows "handlePlayClick be w = w \<and>
         clickPlayButton be w = w \<and>
         (gameVersion (store w) = Some gv \<and> settings (store w) = Some st \<longrightarrow>
            requests (downloadGame be w) =
              requests w @
              [download_request (version gv) (installPath st) (localStorage w ''token'')] \<and>
            downloadProgress (store (downloadGame be w)) =
              Some \<lparr>downloadedBytes = 0, totalBytes = fileSize gv,
                    progressPercent = 0, speedMbps = 0\<rparr>) \<and>
         (gameVersion (store w) = None \<or> settings (store w) = None \<longrightarrow>
            requests (downloadGame be w) = requests w \<and>
            downloadProgress (store (downloadGame be w)) = downloadProgress (store w) \<and>
            launcherStatus (store (downloadGame be w)) = DOWNLOADING)"
proof -
  have ui: "handlePlayClick be w = w \<and> clickPlayButton be w = w"
    using assms by (simp add: handlePlayClick_def clickPlayButton_def isButtonDisabled_def)
  have restart: "requests (downloadGame be w) =
        requests w @
        [download_request (version gv) (installPath st) (localStorage w ''token'')] \<and>
      downloadProgress (store (downloadGame be w)) =
        Some \<lparr>downloadedBytes = 0, totalBytes = fileSize gv,
              progressPercent = 0, speedMbps = 0\<rparr>"
    if "gameVersion (store w) = Some gv" "settings (store w) = Some st"
    using that
    by (cases "ok_json (gameDownload be)")
       (simp_all add: downloadGame_failed downloadGame_succeeded)
  have guard: "requests (downloadGame be w) = requests w \<and>
      downloadProgress (store (downloadGame be w)) = downloadProgress (store w) \<and>
      launcherStatus (store (downloadGame be w)) = DOWNLOADING"
    if "gameVersion (store w) = None \<or> settings (store w) = None"
    using that assms by (auto simp: downloadGame_def split: option.splits)
  show ?thesis using ui restart guard by blast
qed

text \<open>
  The theorem at a store that is downloading, 500 of 1000 bytes done, and at the same
  store with the settings not loaded.
\<close>

theorem downloadGame_while_downloading_witness:
  "handlePlayClick backend_up (world_with DOWNLOADING ''abc'') = world_with DOWNLOADING ''abc'' \<and>
   clickPlayButton backend_up (world_with DOWNLOADING ''abc'') = world_with DOWNLOADING ''abc'' \<and>
   requests (downloadGame backend_up (world_with DOWNLOADING ''abc'')) =
     [download_request ''1.2.3'' [] None] \<and>
   downloadProgress (store (downloadGame backend_up (world_with DOWNLOADING ''abc''))) =
     Some \<lparr>downloadedBytes = 0, totalBytes = 1000, progressPercent = 0, speedMbps = 0\<rparr> \<and>
   requests (downloadGame backend_up
      ((world_with DOWNLOADING ''abc'')
         \<lparr>store := (store (world_with DOWNLOADING ''abc''))\<lparr>settings := None\<rparr>\<rparr>)) = [] \<and>
   downloadProgress (store (downloadGame backend_up
      ((world_with DOWNLOADING ''abc'')
         \<lparr>store := (store (world_with DOWNLOADING ''abc''))\<lparr>settings := None\<rparr>\<rparr>))) =
     Some \<lparr>downloadedBytes = 500, totalBytes = 1000, progressPercent = 50, speedMbps = 1\<rparr>"
  using downloadGame_while_downloading
      [of "world_with DOWNLOADING ''abc''" backend_up "sample_version" default_settings]
    downloadGame_while_downloading
      [of "(world_with DOWNLOADING ''abc'')
             \<lparr>store := (store (world_with DOWNLOADING ''abc''))\<lparr>settings := None\<rparr>\<rparr>"
          backend_up "sample_version" default_settings]
  by (simp add: sample_defs)

text \<open>
  C3 as stated fails: in a store that is downloading with 500 of 1000 bytes done, a
  second \<open>downloadGame\<close> sends a new download request and leaves the progress at 0 bytes.
\<close>

theorem downloadGame_second_invocation_restarts:
  "launcherStatus (store (world_with DOWNLOADING ''abc'')) = DOWNLOADING \<and>
   downloadProgress (store (world_with DOWNLOADING ''abc'')) =
     Some \<lparr>downloadedBytes = 500, totalBytes = 1000, progressPercent = 50, speedMbps = 1\<rparr> \<and>
   requests (world_with DOWNLOADING ''abc'') = [] \<and>
   requests (downloadGame backend_up (world_with DOWNLOADING ''abc'')) =
     [download_request ''1.2.3'' [] None] \<and>
   downloadProgress (store (downloadGame backend_up (world_with DOWNLOADING ''abc''))) =
     Some \<lparr>downloadedBytes = 0, totalBytes = 1000, progressPercent = 0, speedMbps = 0\<rparr>"
  by (simp add: downloadGame_def GameService_downloadGame_def send_def rethrow_def
      ok_json_def ok_def sample_defs)

subsection \<open>C4: login\<close>

text \<open>What the version check leaves in the store, by the outcome of its call.\<close>

lemma checkGameVersion_outcome:
  "launcherStatus (store (checkGameVersion be w)) =
     (if delivered (gameVersionEP be) then READY else ERROR) \<and>
   gameVersion (store (checkGameVersion be w)) =
     (if delivered (gameVersionEP be) then fetched (gameVersionEP be)
      else gameVersion (store w)) \<and>
   errorMessage (store (checkGameVersion be w)) =
     (if delivered (gameVersionEP be) then errorMessage (store w)
      else Some ''Failed to check game version'')"
proof (cases "ok_json (gameVersionEP be)")
  case (Inl e)
  then have "\<not> delivered (gameVersionEP be)"
    by (simp add: not_delivered_ok_json)
  then show ?thesis
    by (simp add: checkGameVersion_failed[OF Inl])
next
  case (Inr v)
  then have "delivered (gameVersionEP be)" "fetched (gameVersionEP be) = Some v"
    by (simp_all add: delivered_ok_json fetched_ok_json)
  then show ?thesis
    by (simp add: checkGameVersion_succeeded[OF Inr])
qed

text \<open>
  C4. \<open>login\<close> composes \<open>AuthService.login\<close> with the version check. When the service
  resolves with a response \<open>r\<close>, the action resolves and its final world is the one
  \<open>checkGameVersion\<close> produces from the world in which the login request has been sent
  and the session has been set (\<open>isAuthenticated\<close>, \<open>user = r\<close>, \<open>token = r.token\<close>, status
  \<open>IDLE\<close>, no message). So the session is set, the requests issued are the login
  followed by the GET of the version, and the store shows the outcome of the version
  check: \<open>READY\<close> with the fetched descriptor and no message when that call is
  delivered, \<open>ERROR\<close> with "Failed to check game version" and the old descriptor
  otherwise. When the service throws \<open>e\<close>, the action rejects with \<open>e\<close>, the only
  request issued is the login (the version check is not invoked, \<open>gameVersion\<close> is
  unchanged), the status is \<open>ERROR\<close> with message \<open>e.toString()\<close>, and no session is
  written: \<open>isAuthenticated\<close>, \<open>user\<close>, \<open>token\<close> and \<open>localStorage\<close> are as before.
\<close>

theorem login_composes_authenticate_and_version_check:
  "(case fst (AuthService_login be u p w) of
      Inr r \<Rightarrow>
        fst (login be u p w) = Inr () \<and>
        snd (login be u p w) =
          checkGameVersion be
            (w\<lparr>requests := requests w @ [login_request u p],
               store := (store w)\<lparr>launcherStatus := IDLE, errorMessage := None,
                                    isAuthenticated := True, user := Some r,
                                    token := Some (AuthResponse.token r)\<rparr>\<rparr>) \<and>
        isAuthenticated (store (snd (login be u p w))) \<and>
        user (store (snd (login be u p w))) = Some r \<and>
        token (store (snd (login be u p w))) = Some (AuthResponse.token r) \<and>
        requests (snd (login be u p w)) = requests w @ [login_request u p, version_request] \<and>
        launcherStatus (store (snd (login be u p w))) =
          (if delivered (gameVersionEP be) then READY else ERROR) \<and>
        gameVersion (store (snd (login be u p w))) =
          (if delivered (gameVersionEP be) then fetched (gameVersionEP be)
           else gameVersion (store w)) \<and>
        errorMessage (store (snd (login be u p w))) =
          (if delivered (gameVersionEP be) then None
           else Some ''Failed to check game version'') \<and>
        installedVersion (store (snd (login be u p w))) = installedVersion (store w) \<and>
        localStorage (snd (login be u p w)) = localStorage w
    | Inl e \<Rightarrow>
        fst (login be u p w) = Inl e \<and>
        launcherStatus (store (snd (login be u p w))) = ERROR \<and>
        errorMessage (store (snd (login be u p w))) = Some (toString e) \<and>
        requests (snd (login be u p w)) = requests w @ [login_request u p] \<and>
        isAuthenticated (store (snd (login be u p w))) = isAuthenticated (store w) \<and>
        user (store (snd (login be u p w))) = user (store w) \<and>
        token (store (snd (login be u p w))) = token (store w) \<and>
        gameVersion (store (snd (login be u p w))) = gameVersion (store w) \<and>
        localStorage (snd (login be u p w)) = localStorage w)"
proof (cases "fst (AuthService_login be u p w)")
  case (Inl e)
  show ?thesis using Inl login_failed[OF Inl, of w] by simp
next
  case (Inr r)
  let ?w1 = "w\<lparr>requests := requests w @ [login_request u p],
               store := (store w)\<lparr>launcherStatus := IDLE, errorMessage := None,
                                    isAuthenticated := True, user := Some r,
                                    token := Some (AuthResponse.token r)\<rparr>\<rparr>"
  have comp: "login be u p w = (Inr (), checkGameVersion be ?w1)"
    using login_succeeded[OF Inr, of w] .
  have c0: "fst (login be u p w) = Inr ()"
    and c1: "snd (login be u p w) = checkGameVersion be ?w1"
    using comp by simp_all
  have c2: "isAuthenticated (store (snd (login be u p w)))"
    and c3: "user (store (snd (login be u p w))) = Some r"
    and c4: "token (store (snd (login be u p w))) = Some (AuthResponse.token r)"
    unfolding c1 using session_checkGameVersion[of be ?w1] by simp_all
  have c5: "requests (snd (login be u p w)) =
      requests w @ [login_request u p, version_request]"
    unfolding c1 by (simp add: requests_checkGameVersion)
  have c6: "launcherStatus (store (snd (login be u p w))) =
        (if delivered (gameVersionEP be) then READY else ERROR) \<and>
      gameVersion (store (snd (login be u p w))) =
        (if delivered (gameVersionEP be) then fetched (gameVersionEP be)
         else gameVersion (store w)) \<and>
      errorMessage (store (snd (login be u p w))) =
        (if delivered (gameVersionEP be) then None
         else Some ''Failed to check game version'')"
    unfolding c1 using checkGameVersion_outcome[of be ?w1]
    by (cases "delivered (gameVersionEP be)") simp_all
  have c7: "installedVersion (store (snd (login be u p w))) = installedVersion (store w) \<and>
      localStorage (snd (login be u p w)) = localStorage w"
    unfolding c1
    by (cases "ok_json (gameVersionEP be)")
       (simp_all add: checkGameVersion_failed checkGameVersion_succeeded)
  show ?thesis
    unfolding Inr sum.case
    using c0 c1 c2 c3 c4 c5 c6 c7 by blast
qed

text \<open>
  The scenarios from the store as created: admin/admin123 against a backend that
  accepts, admin/wrongpass against one that answers 401, and admin/admin123 against
  a backend that accepts the login but whose version endpoint is unreachable.
\<close>

theorem login_composes_authenticate_and_version_check_witness:
  "fst (login backend_up ''admin'' ''admin123'' empty_world) = Inr () \<and>
   isAuthenticated (store (snd (login backend_up ''admin'' ''admin123'' empty_world))) \<and>
   user (store (snd (login backend_up ''admin'' ''admin123'' empty_world))) = Some sample_user \<and>
   token (store (snd (login backend_up ''admin'' ''admin123'' empty_world))) = Some ''jwt'' \<and>
   requests (snd (login backend_up ''admin'' ''admin123'' empty_world)) =
     [login_request ''admin'' ''admin123'', version_request] \<and>
   launcherStatus (store (snd (login backend_up ''admin'' ''admin123'' empty_world))) = READY \<and>
   gameVersion (store (snd (login backend_up ''admin'' ''admin123'' empty_world))) =
     Some sample_version \<and>
   errorMessage (store (snd (login backend_up ''admin'' ''admin123'' empty_world))) = None \<and>
   fst (login backend_401 ''admin'' ''wrongpass'' empty_world) =
     Inl (Error ''Login failed: Error: HTTP error! status: 401'') \<and>
   launcherStatus (store (snd (login backend_401 ''admin'' ''wrongpass'' empty_world))) = ERROR \<and>
   errorMessage (store (snd (login backend_401 ''admin'' ''wrongpass'' empty_world))) =
     Some ''Error: Login failed: Error: HTTP error! status: 401'' \<and>
   \<not> isAuthenticated (store (snd (login backend_401 ''admin'' ''wrongpass'' empty_world))) \<and>
   user (store (snd (login backend_401 ''admin'' ''wrongpass'' empty_world))) = None \<and>
   token (store (snd (login backend_401 ''admin'' ''wrongpass'' empty_world))) = None \<and>
   requests (snd (login backend_401 ''admin'' ''wrongpass'' empty_world)) =
     [login_request ''admin'' ''wrongpass''] \<and>
   isAuthenticated (store (snd (login backend_no_version ''admin'' ''admin123'' empty_world))) \<and>
   launcherStatus (store (snd (login backend_no_version ''admin'' ''admin123'' empty_world))) =
     ERROR \<and>
   gameVersion (store (snd (login backend_no_version ''admin'' ''admin123'' empty_world))) =
     None \<and>
   errorMessage (store (snd (login backend_no_version ''admin'' ''admin123'' empty_world))) =
     Some ''Failed to check game version''"
proof -
  have accepts: "fst (AuthService_login backend_up ''admin'' ''admin123'' empty_world) =
      Inr sample_user"
    "fst (AuthService_login backend_no_version ''admin'' ''admin123'' empty_world) =
      Inr sample_user"
    by (simp_all add: AuthService_login_def rethrow_def ok_json_def ok_def backend_up_def
        backend_no_version_def)
  have start: "isAuthenticated (store empty_world) = False" "user (store empty_world) = None"
    "token (store empty_world) = None" "gameVersion (store empty_world) = None"
    "requests empty_world = []"
    by (simp_all add: empty_world_def initial_state_def)
  have version: "delivered (gameVersionEP backend_up)"
    "fetched (gameVersionEP backend_up) = Some sample_version"
    "\<not> delivered (gameVersionEP backend_no_version)"
    by (simp_all add: backend_up_def backend_no_version_def delivered_def fetched_def ok_def)
  have a: "fst (login backend_up ''admin'' ''admin123'' empty_world) = Inr () \<and>
      isAuthenticated (store (snd (login backend_up ''admin'' ''admin123'' empty_world))) \<and>
      user (store (snd (login backend_up ''admin'' ''admin123'' empty_world))) =
        Some sample_user \<and>
      token (store (snd (login backend_up ''admin'' ''admin123'' empty_world))) = Some ''jwt'' \<and>
      requests (snd (login backend_up ''admin'' ''admin123'' empty_world)) =
        [login_request ''admin'' ''admin123'', version_request] \<and>
      launcherStatus (store (snd (login backend_up ''admin'' ''admin123'' empty_world))) =
        READY \<and>
      gameVersion (store (snd (login backend_up ''admin'' ''admin123'' empty_world))) =
        Some sample_version \<and>
      errorMessage (store (snd (login backend_up ''admin'' ''admin123'' empty_world))) = None"
    using login_composes_authenticate_and_version_check
        [of backend_up "''admin''" "''admin123''" empty_world]
    by (auto simp add: accepts version start sample_user_def)
  have b: "fst (login backend_401 ''admin'' ''wrongpass'' empty_world) =
        Inl (Error ''Login failed: Error: HTTP error! status: 401'') \<and>
      launcherStatus (store (snd (login backend_401 ''admin'' ''wrongpass'' empty_world))) =
        ERROR \<and>
      errorMessage (store (snd (login backend_401 ''admin'' ''wrongpass'' empty_world))) =
        Some ''Error: Login failed: Error: HTTP error! status: 401'' \<and>
      \<not> isAuthenticated (store (snd (login backend_401 ''admin'' ''wrongpass'' empty_world))) \<and>
      user (store (snd (login backend_401 ''admin'' ''wrongpass'' empty_world))) = None \<and>
      token (store (snd (login backend_401 ''admin'' ''wrongpass'' empty_world))) = None \<and>
      requests (snd (login backend_401 ''admin'' ''wrongpass'' empty_world)) =
        [login_request ''admin'' ''wrongpass'']"
    using login_composes_authenticate_and_version_check
        [of backend_401 "''admin''" "''wrongpass''" empty_world]
    by (simp add: AuthService_login_401 start Error_def)
  have c: "isAuthenticated (store (snd (login backend_no_version ''admin'' ''admin123''
        empty_world))) \<and>
      launcherStatus (store (snd (login backend_no_version ''admin'' ''admin123''
        empty_world))) = ERROR \<and>
      gameVersion (store (snd (login backend_no_version ''admin'' ''admin123''
        empty_world))) = None \<and>
      errorMessage (store (snd (login backend_no_version ''admin'' ''admin123''
        empty_world))) = Some ''Failed to check game version''"
    using login_composes_authenticate_and_version_check
        [of backend_no_version "''admin''" "''admin123''" empty_world]
    by (auto simp add: accepts version start)
  show ?thesis using a b c by blast
qed

subsection \<open>C5: logout\<close>

text \<open>
  C5 does not hold of the code when the logout request itself fails. Evaluated at a
  logged-in store in \<open>READY\<close> and an unreachable backend: \<open>AuthService.logout\<close> throws,
  the store's \<open>catch\<close> only logs, and the \<open>set\<close> that clears the session is skipped, so
  the user stays authenticated, the token stays in the store and the status stays
  \<open>READY\<close>.
\<close>

theorem logout_network_failure_keeps_session:
  "isAuthenticated (store (world_with READY ''abc'')) \<and>
   logoutUser backend_down = Rejected offline \<and>
   isAuthenticated (store (logout backend_down (world_with READY ''abc''))) \<and>
   user (store (logout backend_down (world_with READY ''abc''))) = Some sample_user \<and>
   token (store (logout backend_down (world_with READY ''abc''))) = Some ''jwt'' \<and>
   launcherStatus (store (logout backend_down (world_with READY ''abc''))) = READY \<and>
   console (logout backend_down (world_with READY ''abc'')) =
     [(''Logout failed:'', Error ''Logout failed: TypeError: Failed to fetch'')]"
  by (simp add: logout_def AuthService_logout_def send_def rethrow_def sample_defs)

text \<open>
  What does hold: whenever the logout request gets a response, of any status, the
  session is cleared and the status is \<open>IDLE\<close>, from every state.
\<close>

lemma logout_clears_session_on_any_response:
  assumes "logoutUser be = Response status js"
  shows "\<not> isAuthenticated (store (logout be w)) \<and>
         user (store (logout be w)) = None \<and>
         token (store (logout be w)) = None \<and>
         launcherStatus (store (logout be w)) = IDLE"
  using logout_succeeded[OF assms, of w] by simp

lemma logout_rejected_changes_no_state:
  assumes "logoutUser be = Rejected e"
  shows "store (logout be w) = store w"
  using logout_failed[OF assms, of w] by simp

subsection \<open>C6: failures at the boundary of the store\<close>

text \<open>
  C6, as amended. A failure thrown by the service that \<open>login\<close>, \<open>checkGameVersion\<close>,
  \<open>downloadGame\<close> or \<open>launchGame\<close> awaits is caught by the action and turned into
  status \<open>ERROR\<close> with a non-empty message. A failure of \<open>saveSettings\<close> inside
  \<open>updateSettings\<close> is written to the console only and the store is left as it is;
  a failure of the logout request is likewise written to the console only and leaves
  the message alone.
  \<open>initialize\<close> never sees a failure, since \<open>getSettings\<close> falls back to the defaults:
  it logs nothing and leaves status and message alone.
\<close>

theorem component_failures_at_store_boundary:
  "(fst (AuthService_login be u p w) = Inl e1 \<longrightarrow>
      launcherStatus (store (snd (login be u p w))) = ERROR \<and>
      errorMessage (store (snd (login be u p w))) = Some (toString e1) \<and>
      toString e1 \<noteq> []) \<and>
   (fst (GameService_checkVersion be w) = Inl e2 \<longrightarrow>
      launcherStatus (store (checkGameVersion be w)) = ERROR \<and>
      errorMessage (store (checkGameVersion be w)) = Some ''Failed to check game version'') \<and>
   (gameVersion (store w) = Some gv \<and> settings (store w) = Some st \<and>
    fst (GameService_downloadGame be (version gv) (installPath st) onProgress_cb w) = Inl e3 \<longrightarrow>
      launcherStatus (store (downloadGame be w)) = ERROR \<and>
      errorMessage (store (downloadGame be w)) = Some (''Download failed: '' @ toString e3)) \<and>
   (token (store w) = Some tok \<and> tok \<noteq> [] \<and> settings (store w) = Some st \<and>
    fst (GameService_launchGame be tok (installPath st) w) = Inl e4 \<longrightarrow>
      launcherStatus (store (launchGame be w)) = ERROR \<and>
      errorMessage (store (launchGame be w)) = Some (''Failed to launch game: '' @ toString e4)) \<and>
   (fst (SettingsService_saveSettings be s w) = Inl e5 \<longrightarrow>
      store (updateSettings be s w) = store w \<and>
      console (updateSettings be s w) = console w @ [(''Failed to save settings:'', e5)]) \<and>
   (logoutUser be = Rejected e6 \<longrightarrow>
      console (logout be w) =
        console w @ [(''Logout failed:'', Error (''Logout failed: '' @ toString e6))] \<and>
      errorMessage (store (logout be w)) = errorMessage (store w)) \<and>
   (\<exists>s0. fst (SettingsService_getSettings be w) = Inr s0) \<and>
   console (initialize be w) = console w \<and>
   launcherStatus (store (initialize be w)) = launcherStatus (store w) \<and>
   errorMessage (store (initialize be w)) = errorMessage (store w)"
proof -
  have l: "launcherStatus (store (snd (login be u p w))) = ERROR \<and>
      errorMessage (store (snd (login be u p w))) = Some (toString e1) \<and>
      toString e1 \<noteq> []" if a: "fst (AuthService_login be u p w) = Inl e1"
  proof -
    from a obtain e where "e1 = Error (''Login failed: '' @ toString e)"
      by (auto simp: AuthService_login_def rethrow_def split: sum.splits)
    then have "toString e1 \<noteq> []" by (simp add: Error_def)
    then show ?thesis using login_failed[OF a, of w] by simp
  qed
  have v: "launcherStatus (store (checkGameVersion be w)) = ERROR \<and>
      errorMessage (store (checkGameVersion be w)) = Some ''Failed to check game version''"
    if a: "fst (GameService_checkVersion be w) = Inl e2"
  proof -
    from a obtain e where "ok_json (gameVersionEP be) = Inl e"
      by (auto simp: GameService_checkVersion_def rethrow_def split: sum.splits)
    then show ?thesis by (simp add: checkGameVersion_failed)
  qed
  have d: "launcherStatus (store (downloadGame be w)) = ERROR \<and>
      errorMessage (store (downloadGame be w)) = Some (''Download failed: '' @ toString e3)"
    if a: "gameVersion (store w) = Some gv" "settings (store w) = Some st"
      "fst (GameService_downloadGame be (version gv) (installPath st) onProgress_cb w) = Inl e3"
  proof -
    from a(3) obtain e where "ok_json (gameDownload be) = Inl e"
      and "e3 = Error (''Failed to download game: '' @ toString e)"
      by (auto simp: GameService_downloadGame_def rethrow_def split: sum.splits)
    then show ?thesis using downloadGame_failed[OF a(1,2), of be e] by simp
  qed
  have g: "launcherStatus (store (launchGame be w)) = ERROR \<and>
      errorMessage (store (launchGame be w)) = Some (''Failed to launch game: '' @ toString e4)"
    if a: "token (store w) = Some tok" "tok \<noteq> []" "settings (store w) = Some st"
      "fst (GameService_launchGame be tok (installPath st) w) = Inl e4"
    using launchGame_failed[OF a] by simp
  have s: "store (updateSettings be s w) = store w \<and>
      console (updateSettings be s w) = console w @ [(''Failed to save settings:'', e5)]"
    if a: "fst (SettingsService_saveSettings be s w) = Inl e5"
    using updateSettings_failed[OF a, of w] by simp
  have o: "console (logout be w) =
        console w @ [(''Logout failed:'', Error (''Logout failed: '' @ toString e6))] \<and>
      errorMessage (store (logout be w)) = errorMessage (store w)"
    if a: "logoutUser be = Rejected e6"
    using logout_failed[OF a, of w] by simp
  have i: "console (initialize be w) = console w \<and>
      launcherStatus (store (initialize be w)) = launcherStatus (store w) \<and>
      errorMessage (store (initialize be w)) = errorMessage (store w)"
    by (simp add: initialize_sets_settings)
  show ?thesis using l v d g s o i getSettings_never_fails[of be w] by blast
qed

text \<open>The theorem at a logged-in store and an unreachable backend: every service fails.\<close>

theorem component_failures_at_store_boundary_witness:
  "launcherStatus (store (snd (login backend_down ''admin'' ''admin123'' (world_with IDLE ''abc'')))) = ERROR \<and>
   errorMessage (store (snd (login backend_down ''admin'' ''admin123'' (world_with IDLE ''abc'')))) =
     Some ''Error: Login failed: TypeError: Failed to fetch'' \<and>
   launcherStatus (store (checkGameVersion backend_down (world_with IDLE ''abc''))) = ERROR \<and>
   errorMessage (store (checkGameVersion backend_down (world_with IDLE ''abc''))) =
     Some ''Failed to check game version'' \<and>
   launcherStatus (store (downloadGame backend_down (world_with IDLE ''abc''))) = ERROR \<and>
   errorMessage (store (downloadGame backend_down (world_with IDLE ''abc''))) =
     Some ''Download failed: Error: Failed to download game: TypeError: Failed to fetch'' \<and>
   launcherStatus (store (launchGame backend_down (world_with IDLE ''abc''))) = ERROR \<and>
   errorMessage (store (launchGame backend_down (world_with IDLE ''abc''))) =
     Some ''Failed to launch game: Error: Failed to launch game: TypeError: Failed to fetch'' \<and>
   store (updateSettings backend_down default_settings (world_with IDLE ''abc'')) =
     store (world_with IDLE ''abc'') \<and>
   console (updateSettings backend_down default_settings (world_with IDLE ''abc'')) =
     [(''Failed to save settings:'', Error ''Failed to save settings: TypeError: Failed to fetch'')] \<and>
   console (logout backend_down (world_with IDLE ''abc'')) =
     [(''Logout failed:'', Error ''Logout failed: TypeError: Failed to fetch'')] \<and>
   errorMessage (store (logout backend_down (world_with IDLE ''abc''))) = None"
proof -
  let ?w = "world_with IDLE ''abc''"
  have a: "fst (AuthService_login backend_down ''admin'' ''admin123'' ?w) =
      Inl (Error ''Login failed: TypeError: Failed to fetch'')"
    by (simp add: AuthService_login_def rethrow_def ok_json_def backend_down_def offline_def)
  have b: "fst (GameService_checkVersion backend_down ?w) =
      Inl (Error ''Failed to check version: TypeError: Failed to fetch'')"
    by (simp add: GameService_checkVersion_def rethrow_def ok_json_def backend_down_def offline_def)
  have c: "fst (GameService_downloadGame backend_down ''1.2.3'' [] onProgress_cb ?w) =
      Inl (Error ''Failed to download game: TypeError: Failed to fetch'')"
    by (simp add: GameService_downloadGame_def rethrow_def ok_json_def backend_down_def offline_def)
  have d: "fst (GameService_launchGame backend_down ''jwt'' [] ?w) =
      Inl (Error ''Failed to launch game: TypeError: Failed to fetch'')"
    by (simp add: GameService_launchGame_def rethrow_def ok_only_def backend_down_def offline_def)
  have e: "fst (SettingsService_saveSettings backend_down default_settings ?w) =
      Inl (Error ''Failed to save settings: TypeError: Failed to fetch'')"
    by (simp add: SettingsService_saveSettings_def rethrow_def ok_only_def backend_down_def offline_def)
  have f: "gameVersion (store ?w) = Some (sample_version\<lparr>checksum := ''abc''\<rparr>)"
    "settings (store ?w) = Some default_settings" "token (store ?w) = Some ''jwt''"
    "console ?w = []" "errorMessage (store ?w) = None"
    by (simp_all add: world_with_def empty_world_def initial_state_def)
  have h: "logoutUser backend_down = Rejected offline"
    "toString offline = ''TypeError: Failed to fetch''"
    by (simp_all add: backend_down_def offline_def)
  have g: "version (sample_version\<lparr>checksum := ''abc''\<rparr>) = ''1.2.3''"
    "installPath default_settings = []"
    by (simp_all add: sample_version_def default_settings_def)
  show ?thesis
    using component_failures_at_store_boundary
       [of backend_down "''admin''" "''admin123''" ?w
        "Error ''Login failed: TypeError: Failed to fetch''"
        "Error ''Failed to check version: TypeError: Failed to fetch''"
        "sample_version\<lparr>checksum := ''abc''\<rparr>" default_settings
        "Error ''Failed to download game: TypeError: Failed to fetch''"
        "''jwt''"
        "Error ''Failed to launch game: TypeError: Failed to fetch''"
        default_settings
        "Error ''Failed to save settings: TypeError: Failed to fetch''"
        offline]
    by (simp add: a b c d e f g h Error_def)
qed

text \<open>
  C6 as stated fails: \<open>saveSettings\<close> throws at an unreachable backend, and
  \<open>updateSettings\<close> leaves the status \<open>IDLE\<close> and the message empty; the store is what it
  was.
\<close>

theorem updateSettings_failure_not_surfaced:
  "fst (SettingsService_saveSettings backend_down default_settings empty_world) =
     Inl (Error ''Failed to save settings: TypeError: Failed to fetch'') \<and>
   launcherStatus (store (updateSettings backend_down default_settings empty_world)) = IDLE \<and>
   errorMessage (store (updateSettings backend_down default_settings empty_world)) = None \<and>
   store (updateSettings backend_down default_settings empty_world) = store empty_world"
  by (simp add: updateSettings_def SettingsService_saveSettings_def send_def rethrow_def
      ok_only_def sample_defs)

subsection \<open>C7: launch requested while downloading\<close>

text \<open>
  C7, as amended. While the status is \<open>DOWNLOADING\<close> the play button is disabled and
  its click handler does nothing (it calls \<open>launchGame\<close> only in \<open>READY\<close>), so a click
  leaves the world as it is. The action \<open>launchGame\<close> itself does not look at the
  status: with a non-empty token and the settings present it sends the launch request
  and ends in \<open>READY\<close> or \<open>ERROR\<close>; with the token missing or empty, or the settings
  missing, it sets the error message and changes nothing else.
\<close>

theorem launchGame_while_downloading:
  assumes "launcherStatus (store w) = DOWNLOADING"
  shows "isButtonDisabled w \<and>
         clickPlayButton be w = w \<and>
         handlePlayClick be w = w \<and>
         (token (store w) = Some tok \<and> tok \<noteq> [] \<and> settings (store w) = Some st \<longrightarrow>
            requests (launchGame be w) = requests w @ [launch_request tok (installPath st)] \<and>
            launcherStatus (store (launchGame be w)) =
              (if accepted (gameLaunch be) then READY else ERROR)) \<and>
         (token (store w) = None \<or> token (store w) = Some [] \<or> settings (store w) = None \<longrightarrow>
            launchGame be w =
              w\<lparr>store := (store w)
                   \<lparr>errorMessage := Some ''Not authenticated or settings missing''\<rparr>\<rparr>)"
proof -
  have ui: "isButtonDisabled w \<and> clickPlayButton be w = w \<and> handlePlayClick be w = w"
    using assms by (simp add: handlePlayClick_def clickPlayButton_def isButtonDisabled_def)
  have run: "requests (launchGame be w) = requests w @ [launch_request tok (installPath st)] \<and>
      launcherStatus (store (launchGame be w)) =
        (if accepted (gameLaunch be) then READY else ERROR)"
    if a: "token (store w) = Some tok" "tok \<noteq> []" "settings (store w) = Some st"
  proof (cases "ok_only (gameLaunch be)")
    case (Inl e)
    then have "\<not> accepted (gameLaunch be)" by (simp add: accepted_ok_only)
    moreover have "fst (GameService_launchGame be tok (installPath st) w) =
        Inl (Error (''Failed to launch game: '' @ toString e))"
      using Inl by (simp add: GameService_launchGame_def rethrow_def)
    ultimately show ?thesis using launchGame_failed[OF a] by simp
  next
    case (Inr u)
    then have "accepted (gameLaunch be)" by (simp add: accepted_ok_only)
    moreover have "fst (GameService_launchGame be tok (installPath st) w) = Inr ()"
      using Inr by (simp add: GameService_launchGame_def rethrow_def)
    ultimately show ?thesis using launchGame_succeeded[OF a] by simp
  qed
  show ?thesis using ui run launchGame_guarded[of w be] by blast
qed

text \<open>
  The theorem at a logged-in store that is downloading, and at the same store with the
  token removed.
\<close>

theorem launchGame_while_downloading_witness:
  "isButtonDisabled (world_with DOWNLOADING ''abc'') \<and>
   clickPlayButton backend_up (world_with DOWNLOADING ''abc'') = world_with DOWNLOADING ''abc'' \<and>
   handlePlayClick backend_up (world_with DOWNLOADING ''abc'') = world_with DOWNLOADING ''abc'' \<and>
   requests (launchGame backend_up (world_with DOWNLOADING ''abc'')) = [launch_request ''jwt'' []] \<and>
   launcherStatus (store (launchGame backend_up (world_with DOWNLOADING ''abc''))) = READY \<and>
   launchGame backend_up
     ((world_with DOWNLOADING ''abc'')
        \<lparr>store := (store (world_with DOWNLOADING ''abc''))\<lparr>token := None\<rparr>\<rparr>) =
   (world_with DOWNLOADING ''abc'')
     \<lparr>store := (store (world_with DOWNLOADING ''abc''))
        \<lparr>token := None, errorMessage := Some ''Not authenticated or settings missing''\<rparr>\<rparr>"
  using launchGame_while_downloading
      [of "world_with DOWNLOADING ''abc''" backend_up "''jwt''" default_settings]
    launchGame_while_downloading
      [of "(world_with DOWNLOADING ''abc'')
             \<lparr>store := (store (world_with DOWNLOADING ''abc''))\<lparr>token := None\<rparr>\<rparr>"
          backend_up "''jwt''" default_settings]
  by (simp add: sample_defs accepted_def ok_def)

text \<open>
  C7 as stated fails: invoked on a logged-in store that is downloading, \<open>launchGame\<close>
  sends the launch request and leaves the status at \<open>READY\<close>.
\<close>

theorem launchGame_while_downloading_dispatches:
  "launcherStatus (store (world_with DOWNLOADING ''abc'')) = DOWNLOADING \<and>
   requests (world_with DOWNLOADING ''abc'') = [] \<and>
   launcherStatus (store (launchGame backend_up (world_with DOWNLOADING ''abc''))) = READY \<and>
   requests (launchGame backend_up (world_with DOWNLOADING ''abc'')) = [launch_request ''jwt'' []]"
  by (simp add: launchGame_def GameService_launchGame_def send_def rethrow_def ok_only_def ok_def
      sample_defs)

subsection \<open>C8: how the game is launched\<close>

text \<open>
  C8, as amended. With a non-empty token and the settings present, \<open>launchGame\<close> issues
  exactly one request: a POST to \<^verbatim>\<open>http://localhost:8000/api/game/launch\<close> that carries
  the session token in the header \<^verbatim>\<open>Authorization: Bearer <token>\<close> and the install
  path as its JSON body. The action writes nothing to the console and leaves
  \<open>localStorage\<close> as it is.
\<close>

theorem launchGame_posts_to_backend:
  assumes "token (store w) = Some tok" "tok \<noteq> []" "settings (store w) = Some st"
  shows "requests (launchGame be w) =
           requests w @
           [\<lparr>req_method = POST, url = ''http://localhost:8000/api/game/launch'',
             headers = [(''Authorization'', ''Bearer '' @ tok),
                        (''Content-Type'', ''application/json'')],
             body = LaunchBody (installPath st)\<rparr>] \<and>
         console (launchGame be w) = console w \<and>
         localStorage (launchGame be w) = localStorage w"
  using assms
  by (cases "ok_only (gameLaunch be)")
     (simp_all add: launchGame_def GameService_launchGame_def send_def rethrow_def
        launch_request_def API_URL_def)

text \<open>The theorem at a logged-in store in \<open>READY\<close> and an unreachable backend.\<close>

theorem launchGame_posts_to_backend_witness:
  "requests (launchGame backend_down (world_with READY ''abc'')) =
     [\<lparr>req_method = POST, url = ''http://localhost:8000/api/game/launch'',
       headers = [(''Authorization'', ''Bearer jwt''), (''Content-Type'', ''application/json'')],
       body = LaunchBody []\<rparr>] \<and>
   console (launchGame backend_down (world_with READY ''abc'')) = []"
  using launchGame_posts_to_backend
      [of "world_with READY ''abc''" "''jwt''" default_settings backend_down]
  by (simp add: sample_defs)

text \<open>
  C8 as stated fails: from a logged-in store in \<open>READY\<close>, \<open>launchGame\<close> issues a POST to
  the backend's game/launch endpoint.
\<close>

theorem launchGame_issues_post_game_launch:
  "requests (launchGame backend_up (world_with READY ''abc'')) =
     [\<lparr>req_method = POST, url = ''http://localhost:8000/api/game/launch'',
       headers = [(''Authorization'', ''Bearer jwt''), (''Content-Type'', ''application/json'')],
       body = LaunchBody []\<rparr>]"
  by (simp add: launchGame_def GameService_launchGame_def send_def rethrow_def ok_only_def ok_def
      launch_request_def API_URL_def sample_defs)

subsection \<open>C9: download without a version or without settings\<close>

text \<open>
  C9. If \<open>gameVersion\<close> or \<open>settings\<close> is \<open>null\<close> when \<open>downloadGame\<close> is invoked, the
  action sets \<open>errorMessage\<close> to "Version or settings not available" and does nothing
  else: status, installed version and progress are unchanged, no request is issued
  and nothing is logged.
\<close>

theorem downloadGame_without_version_or_settings:
  assumes "gameVersion (store w) = None \<or> settings (store w) = None"
  shows "downloadGame be w =
           w\<lparr>store := (store w)\<lparr>errorMessage := Some ''Version or settings not available''\<rparr>\<rparr> \<and>
         errorMessage (store (downloadGame be w)) = Some ''Version or settings not available'' \<and>
         launcherStatus (store (downloadGame be w)) = launcherStatus (store w) \<and>
         installedVersion (store (downloadGame be w)) = installedVersion (store w) \<and>
         downloadProgress (store (downloadGame be w)) = downloadProgress (store w) \<and>
         requests (downloadGame be w) = requests w"
proof -
  have "downloadGame be w =
      w\<lparr>store := (store w)\<lparr>errorMessage := Some ''Version or settings not available''\<rparr>\<rparr>"
    using assms by (auto simp: downloadGame_def split: option.splits)
  then show ?thesis by simp
qed

text \<open>The theorem at the store as created, where both are \<open>null\<close>.\<close>

theorem downloadGame_without_version_or_settings_witness:
  "errorMessage (store (downloadGame backend_up empty_world)) =
     Some ''Version or settings not available'' \<and>
   launcherStatus (store (downloadGame backend_up empty_world)) = IDLE \<and>
   installedVersion (store (downloadGame backend_up empty_world)) = None \<and>
   downloadProgress (store (downloadGame backend_up empty_world)) = None \<and>
   requests (downloadGame backend_up empty_world) = []"
  using downloadGame_without_version_or_settings[of empty_world backend_up]
  by (simp add: empty_world_def initial_state_def)

subsection \<open>C10: the install path fetched by the version check\<close>

text \<open>
  C10. The world \<open>checkGameVersion\<close> produces does not depend on the value
  \<open>getInstallPath\<close> resolves to: for any two values the results are equal, in
  particular \<open>gameVersion\<close>, \<open>launcherStatus\<close> and \<open>errorMessage\<close>, and both equal the
  result with the service's own path.
\<close>

theorem checkGameVersion_ignores_install_path:
  "checkGameVersion_with p1 be w = checkGameVersion_with p2 be w \<and>
   checkGameVersion be w = checkGameVersion_with p1 be w \<and>
   gameVersion (store (checkGameVersion_with p1 be w)) =
     gameVersion (store (checkGameVersion_with p2 be w)) \<and>
   launcherStatus (store (checkGameVersion_with p1 be w)) =
     launcherStatus (store (checkGameVersion_with p2 be w)) \<and>
   errorMessage (store (checkGameVersion_with p1 be w)) =
     errorMessage (store (checkGameVersion_with p2 be w))"
proof -
  have same: "checkGameVersion_with p be w = checkGameVersion_with q be w" for p q
    by (simp add: checkGameVersion_with_def Let_def split: prod.splits sum.splits)
  show ?thesis
    using same[of p1 p2] same[of GameService_getInstallPath p1]
    by (simp add: checkGameVersion_def)
qed

end
